theory Spec2Isabelle
  imports Main "HOL-Library.Sublist"
begin

section \<open>Go values used by package selection\<close>

text \<open>
  A Go \<open>error\<close> value is observed by the code only through \<open>err != nil\<close> and through
  the \<open>%s\<close> verb of \<open>fmt.Errorf\<close>, which prints its message. An error is therefore its
  message, and a possibly nil error is an \<open>option\<close> (\<open>None\<close> is \<open>nil\<close>).
\<close>

type_synonym err = "string option"

text \<open>\<open>strings.Join(elems, sep)\<close>.\<close>

fun Join :: "string list \<Rightarrow> string \<Rightarrow> string" where
  "Join [] sep = []"
| "Join [x] sep = x"
| "Join (x # y # ys) sep = x @ sep @ Join (y # ys) sep"

text \<open>The \<open>%d\<close> verb of \<open>fmt\<close> on a non-negative \<open>int\<close> (the code only prints \<open>len\<close>).\<close>

definition digit :: "nat \<Rightarrow> char" where
  "digit d = char_of (48 + d)"

fun itoa :: "nat \<Rightarrow> string" where
  "itoa n = (if n < 10 then [digit n] else itoa (n div 10) @ [digit (n mod 10)])"

declare itoa.simps [simp del]

subsection \<open>Slices and their backing arrays\<close>

text \<open>
  A Go slice is a header (pointer, length, capacity) over a backing array that other
  slices may share. The store maps an address to the array allocated there; an
  allocation takes the next free address. Package selection never reslices, so every
  slice starts at index 0 of its array.
\<close>

record slice =
  ptr :: nat
  len :: nat
  cap :: nat

type_synonym store = "string list list"

definition array_at :: "store \<Rightarrow> nat \<Rightarrow> string list" where
  "array_at h p = (if p < length h then h ! p else [])"

definition elems :: "store \<Rightarrow> slice \<Rightarrow> string list" where
  "elems h s = take (len s) (array_at h (ptr s))"

text \<open>
  The built-in \<open>append(s, x)\<close> with one value. The language fixes when the array is
  reused: if the capacity is large enough, \<open>x\<close> is written into the existing backing array
  and the result shares it; otherwise a new, sufficiently large array is allocated and the
  elements are copied. The capacity of the new array is the implementation's choice:
  \<open>grow\<close> takes the old capacity and the needed length.
\<close>

definition append_slice ::
  "(nat \<Rightarrow> nat \<Rightarrow> nat) \<Rightarrow> slice \<Rightarrow> string \<Rightarrow> store \<Rightarrow> slice \<times> store" where
  "append_slice grow s x h =
     (if len s < cap s
      then (s\<lparr>len := len s + 1\<rparr>, h[ptr s := (array_at h (ptr s))[len s := x]])
      else (let c = max (len s + 1) (grow (cap s) (len s + 1))
            in (\<lparr>ptr = length h, len = len s + 1, cap = c\<rparr>,
                h @ [elems h s @ [x] @ replicate (c - (len s + 1)) []])))"

text \<open>
  The growth rule of the Go runtime (\<open>growslice\<close>) for the small slices of this package:
  the capacity doubles, unless the needed length is larger still.
\<close>

definition go_grow :: "nat \<Rightarrow> nat \<Rightarrow> nat" where
  "go_grow oldcap needed = (if 2 * oldcap < needed then needed else 2 * oldcap)"

section \<open>The selector chain\<close>

text \<open>
  \<open>type selection struct { driver driver; selectors []string }\<close>. The driver is a
  reference that \<open>Find\<close> copies; \<open>'d\<close> is whatever stands for it.
\<close>

record 'd selection =
  driver :: 'd
  selectors :: slice

text \<open>\<open>New\<close>: the composite literal \<open>[]string{selector}\<close> is a fresh array of length and
  capacity 1.\<close>

definition New :: "'d \<Rightarrow> string \<Rightarrow> store \<Rightarrow> 'd selection \<times> store" where
  "New d selector h =
     (\<lparr>driver = d, selectors = \<lparr>ptr = length h, len = 1, cap = 1\<rparr>\<rparr>, h @ [[selector]])"

definition Find ::
  "(nat \<Rightarrow> nat \<Rightarrow> nat) \<Rightarrow> 'd selection \<Rightarrow> string \<Rightarrow> store \<Rightarrow> 'd selection \<times> store" where
  "Find grow s selector h =
     (let (sl, h') = append_slice grow (selectors s) selector h
      in (\<lparr>driver = driver s, selectors = sl\<rparr>, h'))"

definition Selector :: "store \<Rightarrow> 'd selection \<Rightarrow> string" where
  "Selector h s = Join (elems h (selectors s)) '' ''"

text \<open>A caller chaining \<open>Find\<close> over a list of fragments: \<open>s.Find(f2).Find(f3)...\<close>\<close>

fun Finds ::
  "(nat \<Rightarrow> nat \<Rightarrow> nat) \<Rightarrow> 'd selection \<Rightarrow> string list \<Rightarrow> store \<Rightarrow> 'd selection \<times> store" where
  "Finds grow s [] h = (s, h)"
| "Finds grow s (f # fs) h = (let (s', h') = Find grow s f h in Finds grow s' fs h')"

text \<open>A slice header is well formed in a store when its array is allocated with exactly
  the capacity the header records.\<close>

definition wf_slice :: "store \<Rightarrow> slice \<Rightarrow> bool" where
  "wf_slice h s = (ptr s < length h \<and> length (h ! ptr s) = cap s \<and> len s \<le> cap s)"

section \<open>The driver boundary and remote elements\<close>

text \<open>
  \<open>fmt.Errorf\<close> prints the selector between single quotes (\<open>'%s'\<close>) and the option
  text between double quotes (\<open>"%s"\<close>).
\<close>

definition quoted :: "string \<Rightarrow> string" where
  "quoted s = [CHR 0x27] @ s @ [CHR 0x27]"

definition dquoted :: "string \<Rightarrow> string" where
  "dquoted s = [CHR 0x22] @ s @ [CHR 0x22]"

text \<open>
  The remote side is a world \<open>'w\<close> that every call may change. Element values are
  handles \<open>'e\<close>; \<open>'p\<close> is \<open>webdriver.Point\<close>, of which the package only passes \<open>nil\<close>.
  A method with results \<open>(T, error)\<close> returns both, as in Go.

  The \<open>driver\<close> interface of the package:
\<close>

record ('e, 'p, 'w) driver =
  drv_GetElements :: "string \<Rightarrow> 'w \<Rightarrow> ('e list \<times> err) \<times> 'w"
  drv_DoubleClick :: "'w \<Rightarrow> err \<times> 'w"
  drv_MoveTo :: "'e \<Rightarrow> 'p option \<Rightarrow> 'w \<Rightarrow> err \<times> 'w"

text \<open>The methods of \<open>webdriver.Element\<close> that the package calls, dispatched on the
  element value.\<close>

record ('e, 'w) Element =
  el_Click :: "'e \<Rightarrow> 'w \<Rightarrow> err \<times> 'w"
  el_Clear :: "'e \<Rightarrow> 'w \<Rightarrow> err \<times> 'w"
  el_Value :: "'e \<Rightarrow> string \<Rightarrow> 'w \<Rightarrow> err \<times> 'w"
  el_Submit :: "'e \<Rightarrow> 'w \<Rightarrow> err \<times> 'w"
  el_GetText :: "'e \<Rightarrow> 'w \<Rightarrow> (string \<times> err) \<times> 'w"
  el_GetAttribute :: "'e \<Rightarrow> string \<Rightarrow> 'w \<Rightarrow> (string \<times> err) \<times> 'w"
  el_GetCSS :: "'e \<Rightarrow> string \<Rightarrow> 'w \<Rightarrow> (string \<times> err) \<times> 'w"
  el_IsSelected :: "'e \<Rightarrow> 'w \<Rightarrow> (bool \<times> err) \<times> 'w"
  el_IsDisplayed :: "'e \<Rightarrow> 'w \<Rightarrow> (bool \<times> err) \<times> 'w"

text \<open>
  Each call that crosses the boundary is recorded, in order, with its arguments. The
  state threaded through an operation is the record of calls so far and the world.
\<close>

datatype ('e, 'p) call =
    GetElementsC string
  | DoubleClickC
  | MoveToC 'e "'p option"
  | ClickC 'e
  | ClearC 'e
  | ValueC 'e string
  | SubmitC 'e
  | GetTextC 'e
  | GetAttributeC 'e string
  | GetCSSC 'e string
  | IsSelectedC 'e
  | IsDisplayedC 'e

type_synonym ('e, 'p, 'w) st = "('e, 'p) call list \<times> 'w"

definition invoke :: "'c \<Rightarrow> ('w \<Rightarrow> 'r \<times> 'w) \<Rightarrow> 'c list \<times> 'w \<Rightarrow> 'r \<times> ('c list \<times> 'w)" where
  "invoke c f st = (let (r, w') = f (snd st) in (r, (fst st @ [c], w')))"

section \<open>The operations of a selection\<close>

text \<open>\<open>getSingleElement\<close> returns \<open>(nil, err)\<close> or \<open>(element, nil)\<close>: a sum, \<open>Inl\<close> the
  error message.\<close>

definition getSingleElement ::
  "store \<Rightarrow> ('e, 'p, 'w) driver selection \<Rightarrow> ('e, 'p, 'w) st \<Rightarrow> (string + 'e) \<times> ('e, 'p, 'w) st" where
  "getSingleElement h s st =
     (let ((elements, err), st1) =
            invoke (GetElementsC (Selector h s)) (drv_GetElements (driver s) (Selector h s)) st
      in case err of
           Some e \<Rightarrow> (Inl e, st1)
         | None \<Rightarrow>
             if length elements > 1
             then (Inl (''mutiple elements ('' @ itoa (length elements) @ '') were selected''), st1)
             else if length elements = 0 then (Inl ''no element found'', st1)
             else (Inr (elements ! 0), st1))"

definition Count ::
  "store \<Rightarrow> ('e, 'p, 'w) driver selection \<Rightarrow> ('e, 'p, 'w) st \<Rightarrow> (int \<times> err) \<times> ('e, 'p, 'w) st" where
  "Count h s st =
     (let ((elements, err), st1) =
            invoke (GetElementsC (Selector h s)) (drv_GetElements (driver s) (Selector h s)) st
      in case err of
           Some e \<Rightarrow>
             ((0, Some (''failed to retrieve elements for selector '' @ quoted (Selector h s)
                        @ '': '' @ e)), st1)
         | None \<Rightarrow> ((int (length elements), None), st1))"

definition Click ::
  "('e, 'w) Element \<Rightarrow> store \<Rightarrow> ('e, 'p, 'w) driver selection \<Rightarrow> ('e, 'p, 'w) st
   \<Rightarrow> err \<times> ('e, 'p, 'w) st" where
  "Click E h s st =
     (case getSingleElement h s st of
        (Inl e, st1) \<Rightarrow>
          (Some (''failed to retrieve element with selector '' @ quoted (Selector h s)
                 @ '': '' @ e), st1)
      | (Inr element, st1) \<Rightarrow>
          (case invoke (ClickC element) (el_Click E element) st1 of
             (Some e, st2) \<Rightarrow>
               (Some (''failed to click on selector '' @ quoted (Selector h s) @ '': '' @ e), st2)
           | (None, st2) \<Rightarrow> (None, st2)))"

definition DoubleClick ::
  "store \<Rightarrow> ('e, 'p, 'w) driver selection \<Rightarrow> ('e, 'p, 'w) st \<Rightarrow> err \<times> ('e, 'p, 'w) st" where
  "DoubleClick h s st =
     (case getSingleElement h s st of
        (Inl e, st1) \<Rightarrow>
          (Some (''failed to retrieve element with selector '' @ quoted (Selector h s)
                 @ '': '' @ e), st1)
      | (Inr element, st1) \<Rightarrow>
          (case invoke (MoveToC element None) (drv_MoveTo (driver s) element None) st1 of
             (Some e, st2) \<Rightarrow>
               (Some (''failed to move mouse to selector '' @ quoted (Selector h s)
                      @ '': '' @ e), st2)
           | (None, st2) \<Rightarrow>
               (case invoke DoubleClickC (drv_DoubleClick (driver s)) st2 of
                  (Some e, st3) \<Rightarrow>
                    (Some (''failed to double-click on selector '' @ quoted (Selector h s)
                           @ '': '' @ e), st3)
                | (None, st3) \<Rightarrow> (None, st3))))"

definition Fill ::
  "('e, 'w) Element \<Rightarrow> string \<Rightarrow> store \<Rightarrow> ('e, 'p, 'w) driver selection \<Rightarrow> ('e, 'p, 'w) st
   \<Rightarrow> err \<times> ('e, 'p, 'w) st" where
  "Fill E text h s st =
     (case getSingleElement h s st of
        (Inl e, st1) \<Rightarrow>
          (Some (''failed to retrieve element with selector '' @ quoted (Selector h s)
                 @ '': '' @ e), st1)
      | (Inr element, st1) \<Rightarrow>
          (case invoke (ClearC element) (el_Clear E element) st1 of
             (Some e, st2) \<Rightarrow>
               (Some (''failed to clear selector '' @ quoted (Selector h s) @ '': '' @ e), st2)
           | (None, st2) \<Rightarrow>
               (case invoke (ValueC element text) (el_Value E element text) st2 of
                  (Some e, st3) \<Rightarrow>
                    (Some (''failed to enter text into selector '' @ quoted (Selector h s)
                           @ '': '' @ e), st3)
                | (None, st3) \<Rightarrow> (None, st3))))"

definition setChecked ::
  "('e, 'w) Element \<Rightarrow> bool \<Rightarrow> store \<Rightarrow> ('e, 'p, 'w) driver selection \<Rightarrow> ('e, 'p, 'w) st
   \<Rightarrow> err \<times> ('e, 'p, 'w) st" where
  "setChecked E checked h s st =
     (case getSingleElement h s st of
        (Inl e, st1) \<Rightarrow>
          (Some (''failed to retrieve element with selector '' @ quoted (Selector h s)
                 @ '': '' @ e), st1)
      | (Inr element, st1) \<Rightarrow>
          (case invoke (GetAttributeC element ''type'') (el_GetAttribute E element ''type'') st1 of
             ((elementType, Some e), st2) \<Rightarrow>
               (Some (''failed to retrieve type of selector '' @ quoted (Selector h s)
                      @ '': '' @ e), st2)
           | ((elementType, None), st2) \<Rightarrow>
               if elementType \<noteq> ''checkbox''
               then (Some (''selector '' @ quoted (Selector h s)
                           @ '' does not refer to a checkbox''), st2)
               else
                 (case invoke (IsSelectedC element) (el_IsSelected E element) st2 of
                    ((selected, Some e), st3) \<Rightarrow>
                      (Some (''failed to retrieve state of selector '' @ quoted (Selector h s)
                             @ '': '' @ e), st3)
                  | ((selected, None), st3) \<Rightarrow>
                      if selected \<noteq> checked
                      then
                        (case invoke (ClickC element) (el_Click E element) st3 of
                           (Some e, st4) \<Rightarrow>
                             (Some (''failed to click selector '' @ quoted (Selector h s)
                                    @ '': '' @ e), st4)
                         | (None, st4) \<Rightarrow> (None, st4))
                      else (None, st3))))"

definition Check ::
  "('e, 'w) Element \<Rightarrow> store \<Rightarrow> ('e, 'p, 'w) driver selection \<Rightarrow> ('e, 'p, 'w) st
   \<Rightarrow> err \<times> ('e, 'p, 'w) st" where
  "Check E h s st = setChecked E True h s st"

definition Uncheck ::
  "('e, 'w) Element \<Rightarrow> store \<Rightarrow> ('e, 'p, 'w) driver selection \<Rightarrow> ('e, 'p, 'w) st
   \<Rightarrow> err \<times> ('e, 'p, 'w) st" where
  "Uncheck E h s st = setChecked E False h s st"

definition Text ::
  "('e, 'w) Element \<Rightarrow> store \<Rightarrow> ('e, 'p, 'w) driver selection \<Rightarrow> ('e, 'p, 'w) st
   \<Rightarrow> (string \<times> err) \<times> ('e, 'p, 'w) st" where
  "Text E h s st =
     (case getSingleElement h s st of
        (Inl e, st1) \<Rightarrow>
          (([], Some (''failed to retrieve element with selector '' @ quoted (Selector h s)
                      @ '': '' @ e)), st1)
      | (Inr element, st1) \<Rightarrow>
          (case invoke (GetTextC element) (el_GetText E element) st1 of
             ((text, Some e), st2) \<Rightarrow>
               (([], Some (''failed to retrieve text for selector '' @ quoted (Selector h s)
                           @ '': '' @ e)), st2)
           | ((text, None), st2) \<Rightarrow> ((text, None), st2)))"

definition Attribute ::
  "('e, 'w) Element \<Rightarrow> string \<Rightarrow> store \<Rightarrow> ('e, 'p, 'w) driver selection \<Rightarrow> ('e, 'p, 'w) st
   \<Rightarrow> (string \<times> err) \<times> ('e, 'p, 'w) st" where
  "Attribute E attribute h s st =
     (case getSingleElement h s st of
        (Inl e, st1) \<Rightarrow>
          (([], Some (''failed to retrieve element with selector '' @ quoted (Selector h s)
                      @ '': '' @ e)), st1)
      | (Inr element, st1) \<Rightarrow>
          (case invoke (GetAttributeC element attribute) (el_GetAttribute E element attribute) st1 of
             ((v, Some e), st2) \<Rightarrow>
               (([], Some (''failed to retrieve attribute value for selector ''
                           @ quoted (Selector h s) @ '': '' @ e)), st2)
           | ((v, None), st2) \<Rightarrow> ((v, None), st2)))"

definition CSS ::
  "('e, 'w) Element \<Rightarrow> string \<Rightarrow> store \<Rightarrow> ('e, 'p, 'w) driver selection \<Rightarrow> ('e, 'p, 'w) st
   \<Rightarrow> (string \<times> err) \<times> ('e, 'p, 'w) st" where
  "CSS E property h s st =
     (case getSingleElement h s st of
        (Inl e, st1) \<Rightarrow>
          (([], Some (''failed to retrieve element with selector '' @ quoted (Selector h s)
                      @ '': '' @ e)), st1)
      | (Inr element, st1) \<Rightarrow>
          (case invoke (GetCSSC element property) (el_GetCSS E element property) st1 of
             ((v, Some e), st2) \<Rightarrow>
               (([], Some (''failed to retrieve CSS property for selector ''
                           @ quoted (Selector h s) @ '': '' @ e)), st2)
           | ((v, None), st2) \<Rightarrow> ((v, None), st2)))"

definition Selected ::
  "('e, 'w) Element \<Rightarrow> store \<Rightarrow> ('e, 'p, 'w) driver selection \<Rightarrow> ('e, 'p, 'w) st
   \<Rightarrow> (bool \<times> err) \<times> ('e, 'p, 'w) st" where
  "Selected E h s st =
     (case getSingleElement h s st of
        (Inl e, st1) \<Rightarrow>
          ((False, Some (''failed to retrieve element with selector '' @ quoted (Selector h s)
                         @ '': '' @ e)), st1)
      | (Inr element, st1) \<Rightarrow>
          (case invoke (IsSelectedC element) (el_IsSelected E element) st1 of
             ((selected, Some e), st2) \<Rightarrow>
               ((False, Some (''failed to determine whether selector '' @ quoted (Selector h s)
                              @ '' is selected: '' @ e)), st2)
           | ((selected, None), st2) \<Rightarrow> ((selected, None), st2)))"

definition Visible ::
  "('e, 'w) Element \<Rightarrow> store \<Rightarrow> ('e, 'p, 'w) driver selection \<Rightarrow> ('e, 'p, 'w) st
   \<Rightarrow> (bool \<times> err) \<times> ('e, 'p, 'w) st" where
  "Visible E h s st =
     (case getSingleElement h s st of
        (Inl e, st1) \<Rightarrow>
          ((False, Some (''failed to retrieve element with selector '' @ quoted (Selector h s)
                         @ '': '' @ e)), st1)
      | (Inr element, st1) \<Rightarrow>
          (case invoke (IsDisplayedC element) (el_IsDisplayed E element) st1 of
             ((visible, Some e), st2) \<Rightarrow>
               ((False, Some (''failed to determine whether selector '' @ quoted (Selector h s)
                              @ '' is visible: '' @ e)), st2)
           | ((visible, None), st2) \<Rightarrow> ((visible, None), st2)))"

text \<open>The \<open>range\<close> loop of \<open>Select\<close> over the resolved options; the empty list is the
  exit of the loop, where \<open>Select\<close> returns its final error.\<close>

fun Select_range ::
  "('e, 'w) Element \<Rightarrow> string \<Rightarrow> store \<Rightarrow> ('e, 'p, 'w) driver selection \<Rightarrow> 'e list
   \<Rightarrow> ('e, 'p, 'w) st \<Rightarrow> err \<times> ('e, 'p, 'w) st" where
  "Select_range E text h s [] st =
     (Some (''no options with text '' @ dquoted text @ '' found for selector ''
            @ quoted (Selector h s)), st)"
| "Select_range E text h s (element # rest) st =
     (case invoke (GetTextC element) (el_GetText E element) st of
        ((elementText, Some e), st1) \<Rightarrow>
          (Some (''failed to retrieve option text for selector '' @ quoted (Selector h s)
                 @ '': '' @ e), st1)
      | ((elementText, None), st1) \<Rightarrow>
          if elementText = text
          then
            (case invoke (ClickC element) (el_Click E element) st1 of
               (Some e, st2) \<Rightarrow>
                 (Some (''failed to click on option with text '' @ dquoted elementText
                        @ '' for selector '' @ quoted (Selector h s) @ '': '' @ e), st2)
             | (None, st2) \<Rightarrow> (None, st2))
          else Select_range E text h s rest st1)"

definition Select ::
  "('e, 'w) Element \<Rightarrow> string \<Rightarrow> store \<Rightarrow> ('e, 'p, 'w) driver selection \<Rightarrow> ('e, 'p, 'w) st
   \<Rightarrow> err \<times> ('e, 'p, 'w) st" where
  "Select E text h s st =
     (case invoke (GetElementsC (Selector h s @ '' option''))
                  (drv_GetElements (driver s) (Selector h s @ '' option'')) st of
        ((elements, Some e), st1) \<Rightarrow>
          (Some (''failed to retrieve options for selector '' @ quoted (Selector h s)
                 @ '': '' @ e), st1)
      | ((elements, None), st1) \<Rightarrow> Select_range E text h s elements st1)"

definition Submit ::
  "('e, 'w) Element \<Rightarrow> store \<Rightarrow> ('e, 'p, 'w) driver selection \<Rightarrow> ('e, 'p, 'w) st
   \<Rightarrow> err \<times> ('e, 'p, 'w) st" where
  "Submit E h s st =
     (case getSingleElement h s st of
        (Inl e, st1) \<Rightarrow>
          (Some (''failed to retrieve element with selector '' @ quoted (Selector h s)
                 @ '': '' @ e), st1)
      | (Inr element, st1) \<Rightarrow>
          (case invoke (SubmitC element) (el_Submit E element) st1 of
             (Some e, st2) \<Rightarrow>
               (Some (''failed to submit selector '' @ quoted (Selector h s) @ '': '' @ e), st2)
           | (None, st2) \<Rightarrow> (None, st2)))"

section \<open>Callers, observations and test doubles\<close>

text \<open>
  The eleven operations that resolve a single element, as one caller sees them: the operation
  chosen, and the error it returns with the final state.
\<close>

datatype single_op =
    OpClick | OpDoubleClick | OpFill string | OpText | OpAttribute string | OpCSS string
  | OpCheck | OpUncheck | OpSelected | OpVisible | OpSubmit

definition perform ::
  "('e, 'w) Element \<Rightarrow> single_op \<Rightarrow> store \<Rightarrow> ('e, 'p, 'w) driver selection \<Rightarrow> ('e, 'p, 'w) st
   \<Rightarrow> err \<times> ('e, 'p, 'w) st" where
  "perform E op h s st =
     (case op of
        OpClick \<Rightarrow> Click E h s st
      | OpDoubleClick \<Rightarrow> DoubleClick h s st
      | OpFill text \<Rightarrow> Fill E text h s st
      | OpText \<Rightarrow> (case Text E h s st of ((v, err), st') \<Rightarrow> (err, st'))
      | OpAttribute a \<Rightarrow> (case Attribute E a h s st of ((v, err), st') \<Rightarrow> (err, st'))
      | OpCSS p \<Rightarrow> (case CSS E p h s st of ((v, err), st') \<Rightarrow> (err, st'))
      | OpCheck \<Rightarrow> Check E h s st
      | OpUncheck \<Rightarrow> Uncheck E h s st
      | OpSelected \<Rightarrow> (case Selected E h s st of ((v, err), st') \<Rightarrow> (err, st'))
      | OpVisible \<Rightarrow> (case Visible E h s st of ((v, err), st') \<Rightarrow> (err, st'))
      | OpSubmit \<Rightarrow> Submit E h s st)"

text \<open>The first call each operation makes on the element it resolved.\<close>

fun first_call :: "single_op \<Rightarrow> 'e \<Rightarrow> ('e, 'p) call" where
  "first_call OpClick e = ClickC e"
| "first_call OpDoubleClick e = MoveToC e None"
| "first_call (OpFill text) e = ClearC e"
| "first_call OpText e = GetTextC e"
| "first_call (OpAttribute a) e = GetAttributeC e a"
| "first_call (OpCSS p) e = GetCSSC e p"
| "first_call OpCheck e = GetAttributeC e ''type''"
| "first_call OpUncheck e = GetAttributeC e ''type''"
| "first_call OpSelected e = IsSelectedC e"
| "first_call OpVisible e = IsDisplayedC e"
| "first_call OpSubmit e = SubmitC e"

text \<open>The number of primitive clicks in a record of calls.\<close>

fun clicks :: "('e, 'p) call list \<Rightarrow> nat" where
  "clicks [] = 0"
| "clicks (ClickC e # cs) = Suc (clicks cs)"
| "clicks (c # cs) = clicks cs"

text \<open>The world after the texts of the given options have been read, in order.\<close>

definition after_reads :: "('e, 'w) Element \<Rightarrow> 'e list \<Rightarrow> 'w \<Rightarrow> 'w" where
  "after_reads E es w = fold (\<lambda>e w. snd (el_GetText E e w)) es w"

text \<open>
  Test doubles. The world of the stub driver counts the calls it has served; elements are
  numbers. The driver resolves selectors through \<open>resolve\<close>, fails resolution with \<open>gerr\<close> and
  pointer moves with \<open>merr\<close>. The stub elements fail \<open>Clear\<close> with \<open>cerr\<close>, have \<open>type\<close>
  attribute \<open>ty\<close>, selected-state \<open>selected\<close> and texts \<open>text_of\<close>.
\<close>

definition stub_driver :: "(string \<Rightarrow> nat list) \<Rightarrow> err \<Rightarrow> err \<Rightarrow> (nat, unit, nat) driver" where
  "stub_driver resolve gerr merr =
     \<lparr>drv_GetElements = (\<lambda>sel w. ((resolve sel, gerr), Suc w)),
      drv_DoubleClick = (\<lambda>w. (None, Suc w)),
      drv_MoveTo = (\<lambda>e p w. (merr, Suc w))\<rparr>"

definition stub_element :: "err \<Rightarrow> string \<Rightarrow> bool \<Rightarrow> (nat \<Rightarrow> string) \<Rightarrow> (nat, nat) Element" where
  "stub_element cerr ty selected text_of =
     \<lparr>el_Click = (\<lambda>e w. (None, Suc w)),
      el_Clear = (\<lambda>e w. (cerr, Suc w)),
      el_Value = (\<lambda>e t w. (None, Suc w)),
      el_Submit = (\<lambda>e w. (None, Suc w)),
      el_GetText = (\<lambda>e w. ((text_of e, None), Suc w)),
      el_GetAttribute = (\<lambda>e a w. ((if a = ''type'' then ty else [], None), Suc w)),
      el_GetCSS = (\<lambda>e p w. (([], None), Suc w)),
      el_IsSelected = (\<lambda>e w. ((selected, None), Suc w)),
      el_IsDisplayed = (\<lambda>e w. ((True, None), Suc w))\<rparr>"

definition checkbox :: "bool \<Rightarrow> (nat, nat) Element" where
  "checkbox selected = stub_element None ''checkbox'' selected (\<lambda>e. [])"

definition options_ABB :: "(nat, nat) Element" where
  "options_ABB = stub_element None [] False (\<lambda>e. if e = 0 then ''A'' else ''B'')"

text \<open>\<open>New(d, "form").Find("input")\<close> in an empty store.\<close>

definition form_input :: "'d \<Rightarrow> 'd selection \<times> store" where
  "form_input d = Finds go_grow (fst (New d ''form'' [])) [''input''] (snd (New d ''form'' []))"

definition resolves_to :: "nat list \<Rightarrow> (nat, unit, nat) driver selection \<times> store" where
  "resolves_to es = form_input (stub_driver (\<lambda>sel. es) None None)"

definition unreachable :: "(nat, unit, nat) driver selection \<times> store" where
  "unreachable = form_input (stub_driver (\<lambda>sel. []) (Some ''timeout'') None)"

definition offscreen :: "(nat, unit, nat) driver selection \<times> store" where
  "offscreen = form_input (stub_driver (\<lambda>sel. [7]) None (Some ''offscreen''))"

section \<open>Rendering of chained selections\<close>

lemma append_slice_elems:
  assumes "wf_slice h s" and "append_slice grow s x h = (s', h')"
  shows "wf_slice h' s' \<and> elems h' s' = elems h s @ [x]"
proof (cases "len s < cap s")
  case True
  with assms have s': "s' = s\<lparr>len := len s + 1\<rparr>"
    and h': "h' = h[ptr s := (h ! ptr s)[len s := x]]"
    by (auto simp: append_slice_def array_at_def wf_slice_def)
  from assms(1) True have "take (len s + 1) ((h ! ptr s)[len s := x]) = take (len s) (h ! ptr s) @ [x]"
    by (simp add: wf_slice_def take_Suc_conv_app_nth)
  with assms(1) True show ?thesis
    by (simp add: s' h' wf_slice_def elems_def array_at_def)
next
  case False
  with assms(1) have full: "len s = cap s" by (simp add: wf_slice_def)
  from assms(1) have n: "length (elems h s) = len s"
    by (simp add: wf_slice_def elems_def array_at_def)
  define c where "c = max (len s + 1) (grow (cap s) (len s + 1))"
  from assms(2) False have s': "s' = \<lparr>ptr = length h, len = len s + 1, cap = c\<rparr>"
    and h': "h' = h @ [elems h s @ [x] @ replicate (c - (len s + 1)) []]"
    by (auto simp: append_slice_def Let_def c_def)
  have "len s + 1 \<le> c" by (simp add: c_def)
  with n show ?thesis
    by (simp add: s' h' wf_slice_def elems_def array_at_def)
qed

lemma New_elems:
  assumes "New d f h = (s, h')"
  shows "wf_slice h' (selectors s) \<and> elems h' (selectors s) = [f]"
  using assms by (auto simp: New_def wf_slice_def elems_def array_at_def)

lemma Find_elems:
  assumes "wf_slice h (selectors s)" and "Find grow s f h = (s', h')"
  shows "wf_slice h' (selectors s') \<and> elems h' (selectors s') = elems h (selectors s) @ [f]"
proof -
  obtain sl hh where a: "append_slice grow (selectors s) f h = (sl, hh)"
    by (cases "append_slice grow (selectors s) f h")
  with assms(2) have "selectors s' = sl" "h' = hh" by (auto simp: Find_def)
  with append_slice_elems [OF assms(1) a] show ?thesis by simp
qed

lemma Finds_elems:
  assumes "wf_slice h (selectors s)" and "Finds grow s fs h = (s', h')"
  shows "wf_slice h' (selectors s') \<and> elems h' (selectors s') = elems h (selectors s) @ fs"
  using assms
proof (induction fs arbitrary: s h)
  case Nil
  then show ?case by simp
next
  case (Cons f fs)
  obtain s1 h1 where f: "Find grow s f h = (s1, h1)" by (cases "Find grow s f h")
  with Cons.prems(2) have r: "Finds grow s1 fs h1 = (s', h')" by simp
  from Find_elems [OF Cons.prems(1) f] Cons.IH [OF _ r] show ?case by simp
qed

text \<open>
  C3. A Selection built by the root constructor from \<open>f1\<close> and extended by chained
  \<open>Find\<close> calls with \<open>f2..fn\<close> renders, through \<open>Selector()\<close>, the fragments \<open>f1..fn\<close>
  joined by single spaces. This holds in every store and for every growth rule of
  \<open>append\<close>.
\<close>

theorem Selector_of_chain:
  "Selector (snd (Finds grow (fst (New d f h)) fs (snd (New d f h))))
            (fst (Finds grow (fst (New d f h)) fs (snd (New d f h))))
   = Join (f # fs) '' ''"
proof -
  obtain s0 h0 where n: "New d f h = (s0, h0)" by (cases "New d f h")
  obtain s1 h1 where c: "Finds grow s0 fs h0 = (s1, h1)" by (cases "Finds grow s0 fs h0")
  from New_elems [OF n] Finds_elems [OF _ c] have "elems h1 (selectors s1) = f # fs" by simp
  with n c show ?thesis by (simp add: Selector_def)
qed

section \<open>Immutability of selections\<close>

lemma Find_receiver_unchanged:
  assumes "wf_slice h (selectors s)"
  shows "Selector (snd (Find grow s f h)) s = Selector h s"
proof -
  obtain sl hh where a: "append_slice grow (selectors s) f h = (sl, hh)"
    by (cases "append_slice grow (selectors s) f h")
  with assms have "elems hh (selectors s) = elems h (selectors s)"
    by (auto simp: append_slice_def Let_def elems_def array_at_def wf_slice_def nth_append
          split: if_splits)
  with a show ?thesis
    by (simp add: Selector_def Find_def)
qed

lemma Find_twice_shares_array:
  assumes "wf_slice h (selectors s)" and "len (selectors s) < cap (selectors s)"
      and "Find grow s a h = (x, h1)" and "Find grow s b h1 = (y, h2)"
  shows "elems h1 (selectors x) = elems h (selectors s) @ [a]"
    and "elems h2 (selectors x) = elems h (selectors s) @ [b]"
proof -
  let ?sl = "selectors s"
  from assms(2,3) have x: "selectors x = ?sl\<lparr>len := len ?sl + 1\<rparr>"
    and h1: "h1 = h[ptr ?sl := (array_at h (ptr ?sl))[len ?sl := a]]"
    by (auto simp: Find_def append_slice_def)
  from assms(2,4) have h2: "h2 = h1[ptr ?sl := (array_at h1 (ptr ?sl))[len ?sl := b]]"
    by (auto simp: Find_def append_slice_def)
  from assms(1,2) have n: "ptr ?sl < length h" "len ?sl < length (h ! ptr ?sl)"
    by (simp_all add: wf_slice_def)
  from n show "elems h1 (selectors x) = elems h ?sl @ [a]"
    by (simp add: x h1 elems_def array_at_def take_Suc_conv_app_nth)
  from n show "elems h2 (selectors x) = elems h ?sl @ [b]"
    by (simp add: x h1 h2 elems_def array_at_def take_Suc_conv_app_nth)
qed

text \<open>
  C2. Immutability, evaluated on the chain \<open>s = New(d, "a").Find("b").Find("c")\<close> under the
  runtime's growth rule: \<open>s\<close> has length 3 and capacity 4. After \<open>x = s.Find("d")\<close> the
  selection \<open>x\<close> renders \<open>a b c d\<close>; after a second call \<open>y = s.Find("e")\<close> on the same
  receiver, \<open>x\<close> renders \<open>a b c e\<close>: the second \<open>append\<close> wrote into the array that \<open>x\<close> shares.
  The receiver \<open>s\<close> itself still renders \<open>a b c\<close>.
\<close>

theorem Find_overwrites_earlier_Find:
  "(let (s0, h0) = New () ''a'' [];
        (s1, h1) = Find go_grow s0 ''b'' h0;
        (s2, h2) = Find go_grow s1 ''c'' h1;
        (x, h3) = Find go_grow s2 ''d'' h2;
        (y, h4) = Find go_grow s2 ''e'' h3
    in Selector h3 x = ''a b c d'' \<and> Selector h4 x = ''a b c e'' \<and> Selector h4 y = ''a b c e''
       \<and> Selector h4 s2 = ''a b c'')"
  by (simp add: New_def Find_def append_slice_def go_grow_def Selector_def elems_def array_at_def)

section \<open>Resolution and the cardinality policy\<close>

lemma digit_inj: "a < 10 \<Longrightarrow> b < 10 \<Longrightarrow> digit a = digit b \<Longrightarrow> a = b"
  by (simp add: digit_def char_of_eq_iff take_bit_nat_eq_self)

lemma itoa_nonempty: "itoa n \<noteq> []"
  by (subst itoa.simps) simp

text \<open>Different counts print differently: the printed count is the exact count.\<close>

lemma itoa_inject: "itoa m = itoa n \<Longrightarrow> m = n"
proof (induction m arbitrary: n rule: itoa.induct)
  case (1 m)
  show ?case
  proof (cases "m < 10")
    case True
    show ?thesis
    proof (cases "n < 10")
      case n: True
      from "1.prems" True n have "digit m = digit n"
        by (simp add: itoa.simps [of m] itoa.simps [of n])
      with True n show ?thesis by (simp add: digit_inj)
    next
      case False
      with "1.prems" True have "[digit m] = itoa (n div 10) @ [digit (n mod 10)]"
        by (simp add: itoa.simps [of m] itoa.simps [of n])
      then show ?thesis using itoa_nonempty [of "n div 10"] by simp
    qed
  next
    case False
    show ?thesis
    proof (cases "n < 10")
      case True
      with "1.prems" False have "itoa (m div 10) @ [digit (m mod 10)] = [digit n]"
        by (simp add: itoa.simps [of m] itoa.simps [of n])
      then show ?thesis using itoa_nonempty [of "m div 10"] by simp
    next
      case n: False
      with "1.prems" False
      have "itoa (m div 10) @ [digit (m mod 10)] = itoa (n div 10) @ [digit (n mod 10)]"
        by (simp add: itoa.simps [of m] itoa.simps [of n])
      then have a: "itoa (m div 10) = itoa (n div 10)" and b: "digit (m mod 10) = digit (n mod 10)"
        by simp_all
      from "1.IH" [OF False a] have "m div 10 = n div 10" .
      moreover from b have "m mod 10 = n mod 10" by (intro digit_inj) simp_all
      ultimately show ?thesis by (metis div_mult_mod_eq)
    qed
  qed
qed

lemma itoa_two: "itoa (Suc (Suc 0)) = ''2''"
  by code_simp

lemmas op_defs = perform_def Click_def DoubleClick_def Fill_def Text_def Attribute_def CSS_def
  Check_def Uncheck_def setChecked_def Selected_def Visible_def Submit_def

lemma form_input_simps:
  "Selector (snd (form_input d)) (fst (form_input d)) = ''form input''"
  "driver (fst (form_input d)) = d"
  by (simp_all add: form_input_def New_def Find_def append_slice_def go_grow_def Selector_def
        elems_def array_at_def)

lemma resolves_to_simps:
  "Selector (snd (resolves_to es)) (fst (resolves_to es)) = ''form input''"
  "driver (fst (resolves_to es)) = stub_driver (\<lambda>sel. es) None None"
  by (simp_all add: resolves_to_def form_input_simps)

lemma unreachable_simps:
  "Selector (snd unreachable) (fst unreachable) = ''form input''"
  "driver (fst unreachable) = stub_driver (\<lambda>sel. []) (Some ''timeout'') None"
  by (simp_all add: unreachable_def form_input_simps)

lemma offscreen_simps:
  "Selector (snd offscreen) (fst offscreen) = ''form input''"
  "driver (fst offscreen) = stub_driver (\<lambda>sel. [7]) None (Some ''offscreen'')"
  by (simp_all add: offscreen_def form_input_simps)

lemma getSingleElement_none:
  assumes "drv_GetElements (driver s) (Selector h s) w = (([], None), w1)"
  shows "getSingleElement h s (tr, w) =
    (Inl ''no element found'', (tr @ [GetElementsC (Selector h s)], w1))"
  using assms by (simp add: getSingleElement_def invoke_def)

lemma getSingleElement_many:
  assumes "drv_GetElements (driver s) (Selector h s) w = ((es, None), w1)" and "2 \<le> length es"
  shows "getSingleElement h s (tr, w) =
    (Inl (''mutiple elements ('' @ itoa (length es) @ '') were selected''),
     (tr @ [GetElementsC (Selector h s)], w1))"
  using assms by (simp add: getSingleElement_def invoke_def)

lemma getSingleElement_one:
  assumes "drv_GetElements (driver s) (Selector h s) w = (([e], None), w1)"
  shows "getSingleElement h s (tr, w) = (Inr e, (tr @ [GetElementsC (Selector h s)], w1))"
  using assms by (simp add: getSingleElement_def invoke_def)

lemma perform_Inl:
  assumes "getSingleElement h s st = (Inl m, st1)"
  shows "perform E op h s st =
    (Some (''failed to retrieve element with selector '' @ quoted (Selector h s) @ '': '' @ m), st1)"
  using assms by (cases op) (simp_all add: op_defs)

lemma perform_Inr:
  assumes "getSingleElement h s (tr, w) = (Inr e, (tr', w1))"
  shows "prefix (tr' @ [first_call op e]) (fst (snd (perform E op h s (tr, w))))"
  using assms by (cases op) (auto simp: op_defs invoke_def split: prod.splits option.splits)

text \<open>
  C1. Every single-element operation (Click, DoubleClick, Fill, Text, Attribute, CSS, Check,
  Uncheck, Selected, Visible, Submit) whose path the driver resolves without error: with no
  handle it fails with the "no element found" condition and calls nothing else; with two or
  more handles it fails with the "multiple elements" condition that prints the number of
  handles, and calls nothing else; with exactly one handle, \<open>getSingleElement\<close> returns that
  handle and the operation's next call is made on it.
\<close>

theorem single_element_policy:
  assumes "drv_GetElements (driver s) (Selector h s) w = ((es, None), w1)"
  shows "(es = [] \<longrightarrow>
            fst (getSingleElement h s (tr, w)) = Inl ''no element found'' \<and>
            perform E op h s (tr, w) =
              (Some (''failed to retrieve element with selector '' @ quoted (Selector h s)
                     @ '': no element found''),
               (tr @ [GetElementsC (Selector h s)], w1)))
       \<and> (2 \<le> length es \<longrightarrow>
            fst (getSingleElement h s (tr, w)) =
              Inl (''mutiple elements ('' @ itoa (length es) @ '') were selected'') \<and>
            perform E op h s (tr, w) =
              (Some (''failed to retrieve element with selector '' @ quoted (Selector h s)
                     @ '': mutiple elements ('' @ itoa (length es) @ '') were selected''),
               (tr @ [GetElementsC (Selector h s)], w1)))
       \<and> (es = [e] \<longrightarrow>
            fst (getSingleElement h s (tr, w)) = Inr e \<and>
            prefix (tr @ [GetElementsC (Selector h s), first_call op e])
                   (fst (snd (perform E op h s (tr, w)))))"
proof (intro conjI impI)
  assume "es = []"
  with assms have g: "getSingleElement h s (tr, w) =
      (Inl ''no element found'', (tr @ [GetElementsC (Selector h s)], w1))"
    by (simp add: getSingleElement_none)
  then show "fst (getSingleElement h s (tr, w)) = Inl ''no element found''" by simp
  from perform_Inl [OF g] show "perform E op h s (tr, w) =
      (Some (''failed to retrieve element with selector '' @ quoted (Selector h s)
             @ '': no element found''), (tr @ [GetElementsC (Selector h s)], w1))" by simp
next
  assume "2 \<le> length es"
  from getSingleElement_many [OF assms this]
  have g: "getSingleElement h s (tr, w) =
      (Inl (''mutiple elements ('' @ itoa (length es) @ '') were selected''),
       (tr @ [GetElementsC (Selector h s)], w1))" .
  then show "fst (getSingleElement h s (tr, w)) =
      Inl (''mutiple elements ('' @ itoa (length es) @ '') were selected'')" by simp
  from perform_Inl [OF g] show "perform E op h s (tr, w) =
      (Some (''failed to retrieve element with selector '' @ quoted (Selector h s)
             @ '': mutiple elements ('' @ itoa (length es) @ '') were selected''),
       (tr @ [GetElementsC (Selector h s)], w1))" by simp
next
  assume "es = [e]"
  with assms have g: "getSingleElement h s (tr, w) =
      (Inr e, (tr @ [GetElementsC (Selector h s)], w1))"
    by (simp add: getSingleElement_one)
  then show "fst (getSingleElement h s (tr, w)) = Inr e" by simp
  from perform_Inr [OF g, of op E]
  show "prefix (tr @ [GetElementsC (Selector h s), first_call op e])
               (fst (snd (perform E op h s (tr, w))))" by simp
qed

theorem single_element_policy_witness:
  "drv_GetElements (driver (fst (resolves_to []))) ''form input'' 0 = (([], None), 1)
   \<and> perform (checkbox False) OpText (snd (resolves_to [])) (fst (resolves_to [])) ([], 0) =
       (Some (''failed to retrieve element with selector '' @ quoted ''form input''
              @ '': no element found''), ([GetElementsC ''form input''], 1))
   \<and> drv_GetElements (driver (fst (resolves_to [3, 4]))) ''form input'' 0 = (([3, 4], None), 1)
   \<and> perform (checkbox False) OpClick (snd (resolves_to [3, 4])) (fst (resolves_to [3, 4])) ([], 0) =
       (Some (''failed to retrieve element with selector '' @ quoted ''form input''
              @ '': mutiple elements (2) were selected''),
        ([GetElementsC ''form input''], 1))
   \<and> drv_GetElements (driver (fst (resolves_to [7]))) ''form input'' 0 = (([7], None), 1)
   \<and> prefix [GetElementsC ''form input'', GetAttributeC 7 ''type'']
        (fst (snd (perform (checkbox False) OpCheck (snd (resolves_to [7])) (fst (resolves_to [7]))
                     ([], 0))))"
  using single_element_policy [where s = "fst (resolves_to [])" and h = "snd (resolves_to [])"
          and w = 0 and es = "[]" and ?w1.0 = 1 and tr = "[]" and E = "checkbox False"
          and op = OpText and e = 0]
        single_element_policy [where s = "fst (resolves_to [3, 4])" and h = "snd (resolves_to [3, 4])"
          and w = 0 and es = "[3, 4]" and ?w1.0 = 1 and tr = "[]" and E = "checkbox False"
          and op = OpClick and e = 0]
        single_element_policy [where s = "fst (resolves_to [7])" and h = "snd (resolves_to [7])"
          and w = 0 and es = "[7]" and ?w1.0 = 1 and tr = "[]" and E = "checkbox False"
          and op = OpCheck and e = 7]
  by (simp add: resolves_to_simps stub_driver_def itoa_two)

section \<open>Count\<close>

text \<open>
  C8. \<open>Count()\<close> on a selection whose rendered path the driver resolves to \<open>k\<close> handles returns
  \<open>k\<close> and no error, for every \<open>k\<close> including 0; if the resolution fails, it returns an error
  that names the rendered path and ends with the underlying cause.
\<close>

theorem Count_result:
  "(drv_GetElements (driver s) (Selector h s) w = ((es, None), w1) \<longrightarrow>
       Count h s (tr, w) = ((int (length es), None), (tr @ [GetElementsC (Selector h s)], w1)))
   \<and> (drv_GetElements (driver s) (Selector h s) w = ((es, Some c), w1) \<longrightarrow>
       Count h s (tr, w) =
         ((0, Some (''failed to retrieve elements for selector '' @ quoted (Selector h s)
                    @ '': '' @ c)),
          (tr @ [GetElementsC (Selector h s)], w1)))"
  by (simp add: Count_def invoke_def)

theorem Count_result_witness:
  "drv_GetElements (driver (fst (resolves_to []))) ''form input'' 0 = (([], None), 1)
   \<and> Count (snd (resolves_to [])) (fst (resolves_to [])) ([], 0) =
       ((0, None), ([GetElementsC ''form input''], 1))
   \<and> drv_GetElements (driver (fst (resolves_to [3, 4]))) ''form input'' 0 = (([3, 4], None), 1)
   \<and> Count (snd (resolves_to [3, 4])) (fst (resolves_to [3, 4])) ([], 0) =
       ((2, None), ([GetElementsC ''form input''], 1))
   \<and> drv_GetElements (driver (fst unreachable)) ''form input'' 0 = (([], Some ''timeout''), 1)
   \<and> Count (snd unreachable) (fst unreachable) ([], 0) =
       ((0, Some (''failed to retrieve elements for selector '' @ quoted ''form input''
                  @ '': timeout'')),
        ([GetElementsC ''form input''], 1))"
  using Count_result [where s = "fst (resolves_to [])" and h = "snd (resolves_to [])"
          and w = 0 and tr = "[]" and es = "[]" and ?w1.0 = 1 and c = "[]"]
        Count_result [where s = "fst (resolves_to [3, 4])" and h = "snd (resolves_to [3, 4])"
          and w = 0 and tr = "[]" and es = "[3, 4]" and ?w1.0 = 1 and c = "[]"]
        Count_result [where s = "fst unreachable" and h = "snd unreachable"
          and w = 0 and tr = "[]" and es = "[]" and ?w1.0 = 1 and c = "''timeout''"]
  by (simp add: resolves_to_simps unreachable_simps stub_driver_def)

section \<open>Actions\<close>

text \<open>
  C6. \<open>Fill(text)\<close> on a path resolved to exactly one element calls the element's \<open>Clear\<close>
  and then its \<open>Value\<close>. If \<open>Clear\<close> fails, \<open>Fill\<close> returns the wrapped error and \<open>Value\<close> is
  never called; otherwise \<open>Value\<close> is called once, after \<open>Clear\<close>, and its error (if any) is
  wrapped. Whenever \<open>Fill\<close> succeeds, the calls were \<open>Clear\<close> then \<open>Value\<close>, once each.
\<close>

theorem Fill_order:
  assumes "drv_GetElements (driver s) (Selector h s) w = (([e], None), w1)"
      and "el_Clear E e w1 = (cerr, w2)"
  shows "(cerr = Some c \<longrightarrow>
            Fill E t h s (tr, w) =
              (Some (''failed to clear selector '' @ quoted (Selector h s) @ '': '' @ c),
               (tr @ [GetElementsC (Selector h s), ClearC e], w2)))
       \<and> (cerr = None \<and> el_Value E e t w2 = (verr, w3) \<longrightarrow>
            Fill E t h s (tr, w) =
              (map_option (\<lambda>v. ''failed to enter text into selector ''
                                @ quoted (Selector h s) @ '': '' @ v) verr,
               (tr @ [GetElementsC (Selector h s), ClearC e, ValueC e t], w3)))
       \<and> (fst (Fill E t h s (tr, w)) = None \<longrightarrow>
            fst (snd (Fill E t h s (tr, w))) =
              tr @ [GetElementsC (Selector h s), ClearC e, ValueC e t])"
  using assms
  by (auto simp: Fill_def getSingleElement_def invoke_def split: prod.splits option.splits)

theorem Fill_order_witness:
  "drv_GetElements (driver (fst (resolves_to [7]))) ''form input'' 0 = (([7], None), 1)
   \<and> el_Clear (stub_element (Some ''stale'') ''text'' False (\<lambda>e. [])) 7 1 = (Some ''stale'', 2)
   \<and> Fill (stub_element (Some ''stale'') ''text'' False (\<lambda>e. [])) ''x''
        (snd (resolves_to [7])) (fst (resolves_to [7])) ([], 0) =
       (Some (''failed to clear selector '' @ quoted ''form input'' @ '': stale''),
        ([GetElementsC ''form input'', ClearC 7], 2))
   \<and> el_Clear (stub_element None ''text'' False (\<lambda>e. [])) 7 1 = (None, 2)
   \<and> el_Value (stub_element None ''text'' False (\<lambda>e. [])) 7 ''x'' 2 = (None, 3)
   \<and> Fill (stub_element None ''text'' False (\<lambda>e. [])) ''x''
        (snd (resolves_to [7])) (fst (resolves_to [7])) ([], 0) =
       (None, ([GetElementsC ''form input'', ClearC 7, ValueC 7 ''x''], 3))"
  using Fill_order [where s = "fst (resolves_to [7])" and h = "snd (resolves_to [7])"
          and w = 0 and ?w1.0 = 1 and ?w2.0 = 2 and ?w3.0 = 3 and tr = "[]" and e = 7
          and t = "''x''" and E = "stub_element (Some ''stale'') ''text'' False (\<lambda>e. [])"
          and cerr = "Some ''stale''" and c = "''stale''" and verr = None]
        Fill_order [where s = "fst (resolves_to [7])" and h = "snd (resolves_to [7])"
          and w = 0 and ?w1.0 = 1 and ?w2.0 = 2 and ?w3.0 = 3 and tr = "[]" and e = 7
          and t = "''x''" and E = "stub_element None ''text'' False (\<lambda>e. [])"
          and cerr = None and c = "[]" and verr = None]
  by (simp add: resolves_to_simps stub_driver_def stub_element_def)

text \<open>
  C7. \<open>DoubleClick\<close> on a path resolved to exactly one element first asks the driver to move
  the pointer to that element, with a nil point, and only then asks the driver to
  double-click. If the move fails, \<open>DoubleClick\<close> returns the wrapped error and the driver's
  double-click is never called.
\<close>

theorem DoubleClick_order:
  assumes "drv_GetElements (driver s) (Selector h s) w = (([e], None), w1)"
      and "drv_MoveTo (driver s) e None w1 = (merr, w2)"
  shows "(merr = Some c \<longrightarrow>
            DoubleClick h s (tr, w) =
              (Some (''failed to move mouse to selector '' @ quoted (Selector h s) @ '': '' @ c),
               (tr @ [GetElementsC (Selector h s), MoveToC e None], w2)))
       \<and> (merr = None \<and> drv_DoubleClick (driver s) w2 = (derr, w3) \<longrightarrow>
            DoubleClick h s (tr, w) =
              (map_option (\<lambda>v. ''failed to double-click on selector ''
                                @ quoted (Selector h s) @ '': '' @ v) derr,
               (tr @ [GetElementsC (Selector h s), MoveToC e None, DoubleClickC], w3)))"
  using assms
  by (auto simp: DoubleClick_def getSingleElement_def invoke_def split: prod.splits option.splits)

theorem DoubleClick_order_witness:
  "drv_GetElements (driver (fst offscreen)) ''form input'' 0 = (([7], None), 1)
   \<and> drv_MoveTo (driver (fst offscreen)) 7 None 1 = (Some ''offscreen'', 2)
   \<and> DoubleClick (snd offscreen) (fst offscreen) ([], 0) =
       (Some (''failed to move mouse to selector '' @ quoted ''form input'' @ '': offscreen''),
        ([GetElementsC ''form input'', MoveToC 7 None], 2))
   \<and> drv_GetElements (driver (fst (resolves_to [7]))) ''form input'' 0 = (([7], None), 1)
   \<and> drv_MoveTo (driver (fst (resolves_to [7]))) 7 None 1 = (None, 2)
   \<and> drv_DoubleClick (driver (fst (resolves_to [7]))) 2 = (None, 3)
   \<and> DoubleClick (snd (resolves_to [7])) (fst (resolves_to [7])) ([], 0) =
       (None, ([GetElementsC ''form input'', MoveToC 7 None, DoubleClickC], 3))"
  using DoubleClick_order [where s = "fst offscreen" and h = "snd offscreen"
          and w = 0 and ?w1.0 = 1 and ?w2.0 = 2 and ?w3.0 = 3 and tr = "[]" and e = 7
          and merr = "Some ''offscreen''" and c = "''offscreen''" and derr = None]
        DoubleClick_order [where s = "fst (resolves_to [7])" and h = "snd (resolves_to [7])"
          and w = 0 and ?w1.0 = 1 and ?w2.0 = 2 and ?w3.0 = 3 and tr = "[]" and e = 7
          and merr = None and c = "[]" and derr = None]
  by (simp add: resolves_to_simps offscreen_simps stub_driver_def)

lemma clicks_append: "clicks (a @ b) = clicks a + clicks b"
  by (induction a rule: clicks.induct) simp_all

text \<open>
  C4. \<open>Check\<close> and \<open>Uncheck\<close> (target state \<open>checked\<close>) on a path resolved to exactly one
  element whose \<open>type\<close> attribute reads \<open>ty\<close>: if \<open>ty\<close> is not exactly \<open>checkbox\<close>, the
  operation fails with the precondition error naming the path and makes no click; if the
  selected-state read equals the target state, it makes no click and succeeds; if it
  differs, it makes exactly one primitive click (whose error, if any, is wrapped).
\<close>

theorem setChecked_policy:
  assumes "drv_GetElements (driver s) (Selector h s) w = (([e], None), w1)"
      and "el_GetAttribute E e ''type'' w1 = ((ty, None), w2)"
      and "r = (if checked then Check E h s (tr, w) else Uncheck E h s (tr, w))"
  shows "(ty \<noteq> ''checkbox'' \<longrightarrow>
            r = (Some (''selector '' @ quoted (Selector h s) @ '' does not refer to a checkbox''),
                 (tr @ [GetElementsC (Selector h s), GetAttributeC e ''type''], w2))
            \<and> clicks (fst (snd r)) = clicks tr)
       \<and> (ty = ''checkbox'' \<and> el_IsSelected E e w2 = ((selected, None), w3)
            \<and> selected = checked \<longrightarrow>
            r = (None, (tr @ [GetElementsC (Selector h s), GetAttributeC e ''type'',
                              IsSelectedC e], w3))
            \<and> clicks (fst (snd r)) = clicks tr)
       \<and> (ty = ''checkbox'' \<and> el_IsSelected E e w2 = ((selected, None), w3)
            \<and> selected \<noteq> checked \<and> el_Click E e w3 = (cerr, w4) \<longrightarrow>
            r = (map_option (\<lambda>v. ''failed to click selector ''
                                  @ quoted (Selector h s) @ '': '' @ v) cerr,
                 (tr @ [GetElementsC (Selector h s), GetAttributeC e ''type'',
                        IsSelectedC e, ClickC e], w4))
            \<and> clicks (fst (snd r)) = clicks tr + 1)"
  using assms
  by (auto simp: Check_def Uncheck_def setChecked_def getSingleElement_def invoke_def
        clicks_append split: prod.splits option.splits)

theorem setChecked_policy_witness:
  "drv_GetElements (driver (fst (resolves_to [7]))) ''form input'' 0 = (([7], None), 1)
   \<and> el_GetAttribute (stub_element None ''radio'' False (\<lambda>e. [])) 7 ''type'' 1
       = ((''radio'', None), 2)
   \<and> Check (stub_element None ''radio'' False (\<lambda>e. [])) (snd (resolves_to [7]))
        (fst (resolves_to [7])) ([], 0) =
       (Some (''selector '' @ quoted ''form input'' @ '' does not refer to a checkbox''),
        ([GetElementsC ''form input'', GetAttributeC 7 ''type''], 2))
   \<and> el_GetAttribute (checkbox True) 7 ''type'' 1 = ((''checkbox'', None), 2)
   \<and> el_IsSelected (checkbox True) 7 2 = ((True, None), 3)
   \<and> Check (checkbox True) (snd (resolves_to [7])) (fst (resolves_to [7])) ([], 0) =
       (None, ([GetElementsC ''form input'', GetAttributeC 7 ''type'', IsSelectedC 7], 3))
   \<and> el_Click (checkbox True) 7 3 = (None, 4)
   \<and> Uncheck (checkbox True) (snd (resolves_to [7])) (fst (resolves_to [7])) ([], 0) =
       (None, ([GetElementsC ''form input'', GetAttributeC 7 ''type'', IsSelectedC 7, ClickC 7], 4))
   \<and> clicks (fst (snd (Uncheck (checkbox True) (snd (resolves_to [7])) (fst (resolves_to [7]))
                          ([], 0)))) = 1"
  using setChecked_policy [where s = "fst (resolves_to [7])" and h = "snd (resolves_to [7])"
          and w = 0 and ?w1.0 = 1 and ?w2.0 = 2 and ?w3.0 = 3 and ?w4.0 = 4 and tr = "[]"
          and e = 7 and checked = True and selected = False and cerr = None
          and E = "stub_element None ''radio'' False (\<lambda>e. [])" and ty = "''radio''",
          OF _ _ refl]
        setChecked_policy [where s = "fst (resolves_to [7])" and h = "snd (resolves_to [7])"
          and w = 0 and ?w1.0 = 1 and ?w2.0 = 2 and ?w3.0 = 3 and ?w4.0 = 4 and tr = "[]"
          and e = 7 and checked = True and selected = True and cerr = None
          and E = "checkbox True" and ty = "''checkbox''", OF _ _ refl]
        setChecked_policy [where s = "fst (resolves_to [7])" and h = "snd (resolves_to [7])"
          and w = 0 and ?w1.0 = 1 and ?w2.0 = 2 and ?w3.0 = 3 and ?w4.0 = 4 and tr = "[]"
          and e = 7 and checked = False and selected = True and cerr = None
          and E = "checkbox True" and ty = "''checkbox''", OF _ _ refl]
  by (simp add: resolves_to_simps stub_driver_def stub_element_def checkbox_def)

text \<open>The loop of \<open>Select\<close> when no option carries the text, and when one does.\<close>

lemma Select_range_nomatch:
  assumes "\<forall>x\<in>set es. \<forall>w'. fst (el_GetText E x w') = (text_of x, None)"
      and "\<forall>x\<in>set es. text_of x \<noteq> t"
  shows "Select_range E t h s es (tr, w) =
     (Some (''no options with text '' @ dquoted t @ '' found for selector ''
            @ quoted (Selector h s)),
      (tr @ map GetTextC es, after_reads E es w))"
  using assms
proof (induction es arbitrary: tr w)
  case Nil
  then show ?case by (simp add: after_reads_def)
next
  case (Cons e es)
  from Cons.prems(1) have r: "fst (el_GetText E e w) = (text_of e, None)" by simp
  obtain w' where w': "el_GetText E e w = ((text_of e, None), w')"
    using r by (cases "el_GetText E e w") simp
  from Cons.prems have "Select_range E t h s es (tr @ [GetTextC e], w') =
     (Some (''no options with text '' @ dquoted t @ '' found for selector ''
            @ quoted (Selector h s)),
      ((tr @ [GetTextC e]) @ map GetTextC es, after_reads E es w'))"
    by (intro Cons.IH) simp_all
  with Cons.prems(2) w' show ?case
    by (simp add: invoke_def after_reads_def)
qed

lemma Select_range_match:
  assumes "\<forall>x\<in>set (pre @ [e]). \<forall>w'. fst (el_GetText E x w') = (text_of x, None)"
      and "\<forall>x\<in>set pre. text_of x \<noteq> t"
      and "text_of e = t"
      and "el_Click E e (after_reads E (pre @ [e]) w) = (cerr, w2)"
  shows "Select_range E t h s (pre @ e # post) (tr, w) =
     (map_option (\<lambda>c. ''failed to click on option with text '' @ dquoted t
                       @ '' for selector '' @ quoted (Selector h s) @ '': '' @ c) cerr,
      (tr @ map GetTextC (pre @ [e]) @ [ClickC e], w2))"
  using assms
proof (induction pre arbitrary: tr w)
  case Nil
  from Nil.prems(1) have r: "fst (el_GetText E e w) = (text_of e, None)" by simp
  obtain w' where w': "el_GetText E e w = ((text_of e, None), w')"
    using r by (cases "el_GetText E e w") simp
  with Nil.prems(3,4) show ?case
    by (cases cerr) (simp_all add: invoke_def after_reads_def)
next
  case (Cons x pre)
  from Cons.prems(1) have r: "fst (el_GetText E x w) = (text_of x, None)" by simp
  obtain w' where w': "el_GetText E x w = ((text_of x, None), w')"
    using r by (cases "el_GetText E x w") simp
  from Cons.prems w' have "Select_range E t h s (pre @ e # post) (tr @ [GetTextC x], w') =
     (map_option (\<lambda>c. ''failed to click on option with text '' @ dquoted t
                       @ '' for selector '' @ quoted (Selector h s) @ '': '' @ c) cerr,
      ((tr @ [GetTextC x]) @ map GetTextC (pre @ [e]) @ [ClickC e], w2))"
    by (intro Cons.IH) (simp_all add: after_reads_def)
  with Cons.prems(2) w' show ?case
    by (simp add: invoke_def)
qed

text \<open>
  C5. \<open>Select(text)\<close> resolves the rendered path with \<open>" option"\<close> appended, for any number
  of resolved options, and reads their texts in order (\<open>text_of\<close> is the text each option
  returns). If no option has the text, it fails with the error naming the text and the
  rendered path, after reading every option. If the options are \<open>pre @ e # post\<close> with \<open>e\<close>
  the first whose text equals \<open>text\<close>, it reads \<open>pre\<close> and \<open>e\<close>, clicks \<open>e\<close> and returns
  success (or the wrapped error of that click); no option of \<open>post\<close> is read or clicked.
\<close>

theorem Select_scan:
  assumes "drv_GetElements (driver s) (Selector h s @ '' option'') w = ((es, None), w1)"
  shows "((\<forall>x\<in>set es. \<forall>w'. fst (el_GetText E x w') = (text_of x, None))
          \<and> (\<forall>x\<in>set es. text_of x \<noteq> t) \<longrightarrow>
            Select E t h s (tr, w) =
              (Some (''no options with text '' @ dquoted t @ '' found for selector ''
                     @ quoted (Selector h s)),
               (tr @ GetElementsC (Selector h s @ '' option'') # map GetTextC es,
                after_reads E es w1)))
       \<and> (es = pre @ e # post
            \<and> (\<forall>x\<in>set (pre @ [e]). \<forall>w'. fst (el_GetText E x w') = (text_of x, None))
            \<and> (\<forall>x\<in>set pre. text_of x \<noteq> t) \<and> text_of e = t
            \<and> el_Click E e (after_reads E (pre @ [e]) w1) = (cerr, w2) \<longrightarrow>
            Select E t h s (tr, w) =
              (map_option (\<lambda>c. ''failed to click on option with text '' @ dquoted t
                                @ '' for selector '' @ quoted (Selector h s) @ '': '' @ c) cerr,
               (tr @ GetElementsC (Selector h s @ '' option'')
                   # map GetTextC (pre @ [e]) @ [ClickC e], w2)))"
proof (intro conjI impI)
  assume a: "(\<forall>x\<in>set es. \<forall>w'. fst (el_GetText E x w') = (text_of x, None))
          \<and> (\<forall>x\<in>set es. text_of x \<noteq> t)"
  then have "Select_range E t h s es (tr @ [GetElementsC (Selector h s @ '' option'')], w1) =
     (Some (''no options with text '' @ dquoted t @ '' found for selector ''
            @ quoted (Selector h s)),
      ((tr @ [GetElementsC (Selector h s @ '' option'')]) @ map GetTextC es,
       after_reads E es w1))"
    by (intro Select_range_nomatch [where text_of = text_of]) simp_all
  with assms show "Select E t h s (tr, w) =
              (Some (''no options with text '' @ dquoted t @ '' found for selector ''
                     @ quoted (Selector h s)),
               (tr @ GetElementsC (Selector h s @ '' option'') # map GetTextC es,
                after_reads E es w1))"
    by (simp add: Select_def invoke_def)
next
  assume a: "es = pre @ e # post
            \<and> (\<forall>x\<in>set (pre @ [e]). \<forall>w'. fst (el_GetText E x w') = (text_of x, None))
            \<and> (\<forall>x\<in>set pre. text_of x \<noteq> t) \<and> text_of e = t
            \<and> el_Click E e (after_reads E (pre @ [e]) w1) = (cerr, w2)"
  then have "Select_range E t h s (pre @ e # post)
       (tr @ [GetElementsC (Selector h s @ '' option'')], w1) =
     (map_option (\<lambda>c. ''failed to click on option with text '' @ dquoted t
                       @ '' for selector '' @ quoted (Selector h s) @ '': '' @ c) cerr,
      ((tr @ [GetElementsC (Selector h s @ '' option'')]) @ map GetTextC (pre @ [e])
         @ [ClickC e], w2))"
    by (intro Select_range_match [where text_of = text_of]) simp_all
  with assms a show "Select E t h s (tr, w) =
              (map_option (\<lambda>c. ''failed to click on option with text '' @ dquoted t
                                @ '' for selector '' @ quoted (Selector h s) @ '': '' @ c) cerr,
               (tr @ GetElementsC (Selector h s @ '' option'')
                   # map GetTextC (pre @ [e]) @ [ClickC e], w2))"
    by (simp add: Select_def invoke_def)
qed

theorem Select_scan_witness:
  "drv_GetElements (driver (fst (resolves_to [0, 1, 2]))) (''form input'' @ '' option'') 0
     = (([0, 1, 2], None), 1)
   \<and> map (\<lambda>x. fst (el_GetText options_ABB x 0)) [0, 1, 2]
       = [(''A'', None), (''B'', None), (''B'', None)]
   \<and> Select options_ABB ''Z'' (snd (resolves_to [0, 1, 2])) (fst (resolves_to [0, 1, 2])) ([], 0) =
       (Some (''no options with text '' @ dquoted ''Z'' @ '' found for selector ''
              @ quoted ''form input''),
        ([GetElementsC ''form input option'', GetTextC 0, GetTextC 1, GetTextC 2], 4))
   \<and> [0, 1, 2] = [0] @ 1 # [2::nat]
   \<and> el_Click options_ABB 1 (after_reads options_ABB [0, 1] 1) = (None, 4)
   \<and> Select options_ABB ''B'' (snd (resolves_to [0, 1, 2])) (fst (resolves_to [0, 1, 2])) ([], 0) =
       (None, ([GetElementsC ''form input option'', GetTextC 0, GetTextC 1, ClickC 1], 4))"
  using Select_scan [where s = "fst (resolves_to [0, 1, 2])" and h = "snd (resolves_to [0, 1, 2])"
          and w = 0 and ?w1.0 = 1 and ?w2.0 = 4 and tr = "[]" and es = "[0, 1, 2]"
          and E = options_ABB and text_of = "\<lambda>x. if x = 0 then ''A'' else ''B''"
          and t = "''Z''" and pre = "[]" and e = 0 and post = "[]" and cerr = None]
        Select_scan [where s = "fst (resolves_to [0, 1, 2])" and h = "snd (resolves_to [0, 1, 2])"
          and w = 0 and ?w1.0 = 1 and ?w2.0 = 4 and tr = "[]" and es = "[0, 1, 2]"
          and E = options_ABB and text_of = "\<lambda>x. if x = 0 then ''A'' else ''B''"
          and t = "''B''" and pre = "[0]" and e = 1 and post = "[2]" and cerr = None]
  by (simp add: resolves_to_simps stub_driver_def stub_element_def options_ABB_def
        after_reads_def)

section \<open>Errors\<close>

lemma sublist_skip: "sublist xs ys \<Longrightarrow> sublist xs (c # ys)"
  by (metis sublist_Cons_right)

lemma sublist_fmt_end: "sublist (quoted sel) (A @ dquoted t @ B @ quoted sel)"
  by (metis append_assoc sublist_append_leftI)

lemma sublist_fmt_mid: "sublist (quoted sel) (A @ dquoted t @ B @ quoted sel @ C)"
  by (metis append_assoc sublist_appendI)

lemma sublist_fmt: "sublist (quoted sel) (A @ quoted sel @ C)"
  by (rule sublist_appendI)

lemma sublist_self_quoted: "sublist sel (quoted sel)"
  unfolding quoted_def by (rule sublist_appendI)

lemma sublist_in_quoted: "sublist (quoted sel) m \<Longrightarrow> sublist sel m"
  using sublist_self_quoted sublist_order.order_trans by blast

lemma perform_err:
  "fst (perform E op h s st) = Some m \<Longrightarrow> sublist (quoted (Selector h s)) m"
  by (cases op)
     (auto simp: op_defs getSingleElement_def split: prod.splits sum.splits option.splits if_splits
           intro!: sublist_skip)

lemma Count_err: "snd (fst (Count h s st)) = Some m \<Longrightarrow> sublist (quoted (Selector h s)) m"
  by (auto simp: Count_def split: prod.splits option.splits intro!: sublist_skip)

lemma Select_range_err:
  "fst (Select_range E t h s es st) = Some m \<Longrightarrow> sublist (quoted (Selector h s)) m"
proof (induction es arbitrary: st)
  case Nil
  then show ?case by (auto simp del: append.simps simp: sublist_fmt_end)
next
  case (Cons e es)
  then show ?case
    by (auto simp del: append.simps simp: sublist_fmt_mid sublist_fmt
          split: prod.splits option.splits if_splits)
qed

lemma Select_err: "fst (Select E t h s st) = Some m \<Longrightarrow> sublist (quoted (Selector h s)) m"
  by (auto simp: Select_def split: prod.splits option.splits
        intro!: sublist_skip dest: Select_range_err)

text \<open>
  C9. Whatever the driver and the elements do, an error returned by any public operation
  (the eleven single-element operations, \<open>Count\<close> and \<open>Select\<close>) has a message that
  contains the rendered selector path of the selection, between single quotes.
\<close>

theorem errors_name_selector:
  "(fst (perform E op h s st) = Some m1 \<longrightarrow>
        sublist (Selector h s) m1 \<and> sublist (quoted (Selector h s)) m1)
   \<and> (snd (fst (Count h s st)) = Some m2 \<longrightarrow>
        sublist (Selector h s) m2 \<and> sublist (quoted (Selector h s)) m2)
   \<and> (fst (Select E t h s st) = Some m3 \<longrightarrow>
        sublist (Selector h s) m3 \<and> sublist (quoted (Selector h s)) m3)"
  using perform_err Count_err Select_err sublist_in_quoted by blast

theorem errors_name_selector_witness:
  "fst (perform (checkbox False) OpSubmit (snd unreachable) (fst unreachable) ([], 0)) =
     Some (''failed to retrieve element with selector '' @ quoted ''form input'' @ '': timeout'')
   \<and> sublist ''form input''
       (''failed to retrieve element with selector '' @ quoted ''form input'' @ '': timeout'')
   \<and> snd (fst (Count (snd unreachable) (fst unreachable) ([], 0))) =
     Some (''failed to retrieve elements for selector '' @ quoted ''form input'' @ '': timeout'')
   \<and> sublist ''form input''
       (''failed to retrieve elements for selector '' @ quoted ''form input'' @ '': timeout'')
   \<and> fst (Select (checkbox False) ''B'' (snd unreachable) (fst unreachable) ([], 0)) =
     Some (''failed to retrieve options for selector '' @ quoted ''form input'' @ '': timeout'')
   \<and> sublist ''form input''
       (''failed to retrieve options for selector '' @ quoted ''form input'' @ '': timeout'')"
proof -
  have a: "fst (perform (checkbox False) OpSubmit (snd unreachable) (fst unreachable) ([], 0)) =
     Some (''failed to retrieve element with selector '' @ quoted ''form input'' @ '': timeout'')"
    by (simp add: perform_def Submit_def getSingleElement_def invoke_def unreachable_simps
          stub_driver_def)
  have b: "snd (fst (Count (snd unreachable) (fst unreachable) ([], 0))) =
     Some (''failed to retrieve elements for selector '' @ quoted ''form input'' @ '': timeout'')"
    by (simp add: Count_def invoke_def unreachable_simps stub_driver_def)
  have c: "fst (Select (checkbox False) ''B'' (snd unreachable) (fst unreachable) ([], 0)) =
     Some (''failed to retrieve options for selector '' @ quoted ''form input'' @ '': timeout'')"
    by (simp add: Select_def invoke_def unreachable_simps stub_driver_def)
  from errors_name_selector [where E = "checkbox False" and op = OpSubmit and t = "''B''"
      and h = "snd unreachable" and s = "fst unreachable" and st = "([], 0)"
      and ?m1.0 = "''failed to retrieve element with selector '' @ quoted ''form input'' @ '': timeout''"
      and ?m2.0 = "''failed to retrieve elements for selector '' @ quoted ''form input'' @ '': timeout''"
      and ?m3.0 = "''failed to retrieve options for selector '' @ quoted ''form input'' @ '': timeout''"]
    a b c
  have "sublist (Selector (snd unreachable) (fst unreachable))
          (''failed to retrieve element with selector '' @ quoted ''form input'' @ '': timeout'')"
    and "sublist (Selector (snd unreachable) (fst unreachable))
          (''failed to retrieve elements for selector '' @ quoted ''form input'' @ '': timeout'')"
    and "sublist (Selector (snd unreachable) (fst unreachable))
          (''failed to retrieve options for selector '' @ quoted ''form input'' @ '': timeout'')"
    by blast+
  then show ?thesis using a b c by (simp only: unreachable_simps)
qed

text \<open>
  C10. Whenever a value-returning operation returns an error, the value returned with it is
  the zero value of its type: 0 for \<open>Count\<close>, the empty string for \<open>Text\<close>, \<open>Attribute\<close> and
  \<open>CSS\<close>, false for \<open>Selected\<close> and \<open>Visible\<close>; whatever the driver and the element returned.
\<close>

theorem zero_value_on_failure:
  "(snd (fst (Count h s st)) \<noteq> None \<longrightarrow> fst (fst (Count h s st)) = 0)
   \<and> (snd (fst (Text E h s st)) \<noteq> None \<longrightarrow> fst (fst (Text E h s st)) = [])
   \<and> (snd (fst (Attribute E a h s st)) \<noteq> None \<longrightarrow> fst (fst (Attribute E a h s st)) = [])
   \<and> (snd (fst (CSS E p h s st)) \<noteq> None \<longrightarrow> fst (fst (CSS E p h s st)) = [])
   \<and> (snd (fst (Selected E h s st)) \<noteq> None \<longrightarrow> fst (fst (Selected E h s st)) = False)
   \<and> (snd (fst (Visible E h s st)) \<noteq> None \<longrightarrow> fst (fst (Visible E h s st)) = False)"
  by (auto simp: Count_def Text_def Attribute_def CSS_def Selected_def Visible_def
        split: prod.splits sum.splits option.splits)

theorem zero_value_on_failure_witness:
  "snd (fst (Count (snd unreachable) (fst unreachable) ([], 0))) \<noteq> None
   \<and> fst (fst (Count (snd unreachable) (fst unreachable) ([], 0))) = 0
   \<and> snd (fst (Text (checkbox True) (snd unreachable) (fst unreachable) ([], 0))) \<noteq> None
   \<and> fst (fst (Text (checkbox True) (snd unreachable) (fst unreachable) ([], 0))) = []
   \<and> snd (fst (Attribute (checkbox True) ''type'' (snd unreachable) (fst unreachable) ([], 0)))
       \<noteq> None
   \<and> fst (fst (Attribute (checkbox True) ''type'' (snd unreachable) (fst unreachable) ([], 0)))
       = []
   \<and> snd (fst (CSS (checkbox True) ''color'' (snd unreachable) (fst unreachable) ([], 0))) \<noteq> None
   \<and> fst (fst (CSS (checkbox True) ''color'' (snd unreachable) (fst unreachable) ([], 0))) = []
   \<and> snd (fst (Selected (checkbox True) (snd unreachable) (fst unreachable) ([], 0))) \<noteq> None
   \<and> fst (fst (Selected (checkbox True) (snd unreachable) (fst unreachable) ([], 0))) = False
   \<and> snd (fst (Visible (checkbox True) (snd unreachable) (fst unreachable) ([], 0))) \<noteq> None
   \<and> fst (fst (Visible (checkbox True) (snd unreachable) (fst unreachable) ([], 0))) = False"
proof -
  have f: "snd (fst (Count (snd unreachable) (fst unreachable) ([], 0))) \<noteq> None"
    "snd (fst (Text (checkbox True) (snd unreachable) (fst unreachable) ([], 0))) \<noteq> None"
    "snd (fst (Attribute (checkbox True) ''type'' (snd unreachable) (fst unreachable) ([], 0)))
       \<noteq> None"
    "snd (fst (CSS (checkbox True) ''color'' (snd unreachable) (fst unreachable) ([], 0))) \<noteq> None"
    "snd (fst (Selected (checkbox True) (snd unreachable) (fst unreachable) ([], 0))) \<noteq> None"
    "snd (fst (Visible (checkbox True) (snd unreachable) (fst unreachable) ([], 0))) \<noteq> None"
    by (simp_all add: Count_def Text_def Attribute_def CSS_def Selected_def Visible_def
          getSingleElement_def invoke_def unreachable_simps stub_driver_def)
  with zero_value_on_failure [where h = "snd unreachable" and s = "fst unreachable"
      and st = "([], 0)" and E = "checkbox True" and a = "''type''" and p = "''color''"]
  show ?thesis by blast
qed

end
